theory Spec2Isabelle
  imports Main
begin

section \<open>The sharings package of cozy-stack (pkg/sharings/sharings.go)\<close>

text \<open>
  The file declares the \<open>Sharing\<close> document, its recipient associations, the resolution of
  the recipients against the document store, the checks made when a sharing is created, and
  the JSON-API view of a sharing (relationships and included resources).

  Three type variables stand for types that are declared in other packages:
  \<^item> \<open>'e\<close>: the error values produced by the couchdb and permissions packages;
  \<^item> \<open>'r\<close>: the \<open>Recipient\<close> document (declared in another file of the package);
  \<^item> \<open>'p\<close>: \<open>permissions.Set\<close>.
\<close>

subsection \<open>Constants of pkg/consts\<close>

text \<open>
  Modelled from the spec: the three sharing types \<open>consts.OneShotSharing\<close>,
  \<open>consts.MasterSlaveSharing\<close>, \<open>consts.MasterMasterSharing\<close> and the status
  \<open>consts.PendingSharingStatus\<close>. The package pkg/consts is not part of the source at
  hand; the spec lists the enumerated \<open>sharing_type\<close> values as "one-shot", "master-slave",
  "master-master" and the status as "pending".
\<close>

definition OneShotSharing :: string where
  "OneShotSharing = ''one-shot''"

definition MasterSlaveSharing :: string where
  "MasterSlaveSharing = ''master-slave''"

definition MasterMasterSharing :: string where
  "MasterMasterSharing = ''master-master''"

definition PendingSharingStatus :: string where
  "PendingSharingStatus = ''pending''"

text \<open>
  Modelled from the spec: \<open>consts.Recipients\<close>, the collection (document type) under which
  the store keeps Recipient documents. The spec names the collection and not its wire
  string; no proof below unfolds this definition.
\<close>

definition Recipients_doctype :: string where
  "Recipients_doctype = ''io.cozy.recipients''"

subsection \<open>Errors\<close>

text \<open>
  The four sentinels \<open>ErrBadSharingType\<close>, \<open>ErrMissingState\<close>, \<open>ErrMissingScope\<close> and
  \<open>ErrRecipientDoesNotExist\<close> of the package; \<open>Foreign e\<close> is an error value \<open>e\<close> of
  another package (couchdb, permissions) handed on as it is. The last two constructors are
  not error values: they are the run-time panics of Go on a nil pointer and on an index out
  of range.
\<close>

datatype 'e error =
    ErrBadSharingType
  | ErrMissingState
  | ErrMissingScope
  | ErrRecipientDoesNotExist
  | Foreign 'e
  | NilDereference
  | IndexOutOfRange

subsection \<open>Data\<close>

text \<open>\<open>jsonapi.ResourceIdentifier\<close>.\<close>

record ResourceIdentifier =
  ID :: string
  Type :: string

text \<open>
  \<open>SharingRecipient\<close>. The unexported field \<open>recipient\<close> is a \<open>*Recipient\<close>: \<open>None\<close> is
  the nil pointer.
\<close>

record 'r SharingRecipient =
  Status :: string
  AccessToken :: string
  RefreshToken :: string
  RefRecipient :: ResourceIdentifier
  recipient :: "'r option"

text \<open>
  \<open>Sharing\<close>. \<open>SRecipients\<close> is a slice of pointers \<open>[]*SharingRecipient\<close>: a list of
  addresses, \<open>None\<close> being the nil pointer. The associations themselves live in a heap, so
  that an assignment through a pointer is seen through every copy of that pointer.
  \<open>Permissions\<close> is a \<open>*permissions.Set\<close>.
\<close>

record 'p Sharing =
  SID :: string
  SRev :: string
  Type :: string
  Owner :: bool
  Desc :: string
  SharingID :: string
  SharingType :: string
  Permissions :: "'p option"
  SRecipients :: "nat option list"

type_synonym 'r heap = "nat \<Rightarrow> 'r SharingRecipient"

definition SetID :: "'p Sharing \<Rightarrow> string \<Rightarrow> 'p Sharing" where
  "SetID s id' = s\<lparr>SID := id'\<rparr>"

definition SetRev :: "'p Sharing \<Rightarrow> string \<Rightarrow> 'p Sharing" where
  "SetRev s rev' = s\<lparr>SRev := rev'\<rparr>"

subsection \<open>The document store\<close>

text \<open>
  Modelled from the spec: the store contract consumed by the package,
  \<open>getDocument(db, collection, id) \<rightarrow> (doc, error)\<close> and \<open>createDocument(db, doc) \<rightarrow> error\<close>
  (\<open>couchdb.GetDoc\<close> and \<open>couchdb.CreateDoc\<close>, which are not part of the source at hand).
  A database is what the store answers to these two operations, together with the record of
  the operations performed on it so far, oldest first. \<open>GetDoc db doctype id\<close> is the error
  or the Recipient document of a read; \<open>CreateDoc db doc\<close> is the error of an insertion, or
  the identifier and the revision the store gives the new document (the document is handed
  to the store as a \<open>couchdb.Doc\<close>, whose setters are \<open>SetID\<close> and \<open>SetRev\<close>).
\<close>

datatype 'p store_call =
    GetDocCall string string
  | CreateDocCall "'p Sharing"

record ('e, 'r, 'p) Database =
  GetDoc :: "string \<Rightarrow> string \<Rightarrow> 'e + 'r"
  CreateDoc :: "'p Sharing \<Rightarrow> 'e + (string \<times> string)"
  calls :: "'p store_call list"

text \<open>
  Modelled from the spec: \<open>utils.RandomString(n)\<close>, "a freshly generated random
  n-character string". The process-wide random source is an unbounded supply of
  characters; a call takes the next \<open>n\<close> of them.
\<close>

type_synonym rand = "nat \<Rightarrow> char"

definition RandomString :: "rand \<Rightarrow> nat \<Rightarrow> string \<times> rand" where
  "RandomString g n = (map g [0..<n], \<lambda>i. g (i + n))"

subsection \<open>Resolution of the recipients\<close>

text \<open>
  \<open>GetRecipient\<close>: one read of the store; the not-found condition of the store
  (\<open>couchdb.IsNotFoundError\<close>, a parameter) becomes \<open>ErrRecipientDoesNotExist\<close>. The Go
  function also returns the empty document beside an error; its callers in this file drop it.
  When the read succeeds the error is nil, which \<open>IsNotFoundError\<close> does not recognise.
\<close>

definition GetRecipient ::
  "('e \<Rightarrow> bool) \<Rightarrow> ('e, 'r, 'p) Database \<Rightarrow> string \<Rightarrow> ('e error + 'r) \<times> ('e, 'r, 'p) Database" where
  "GetRecipient IsNotFoundError db recID =
     (let db' = db\<lparr>calls := calls db @ [GetDocCall Recipients_doctype recID]\<rparr> in
      case GetDoc db Recipients_doctype recID of
        Inr doc \<Rightarrow> (Inr doc, db')
      | Inl err \<Rightarrow>
          (if IsNotFoundError err then Inl ErrRecipientDoesNotExist else Inl (Foreign err), db'))"

text \<open>
  The loop of \<open>Recipients\<close> over \<open>s.SRecipients\<close>. \<open>acc\<close> is the local slice \<open>sRecipients\<close>.
  The assignment \<open>sRec.recipient = recipient\<close> goes through the pointer \<open>sRec\<close>, so it
  changes the heap at once; an error leaves the loop with the heap as it is then.
\<close>

fun Recipients_loop ::
  "('e \<Rightarrow> bool) \<Rightarrow> ('e, 'r, 'p) Database \<Rightarrow> 'r heap \<Rightarrow> nat option list \<Rightarrow> nat option list
     \<Rightarrow> ('e error + nat option list) \<times> ('e, 'r, 'p) Database \<times> 'r heap" where
  "Recipients_loop nf db h [] acc = (Inr acc, db, h)"
| "Recipients_loop nf db h (sRec # rest) acc =
     (case sRec of
        None \<Rightarrow> (Inl NilDereference, db, h)
      | Some a \<Rightarrow>
          (case GetRecipient nf db (ID (RefRecipient (h a))) of
             (Inl err, db') \<Rightarrow> (Inl err, db', h)
           | (Inr rcp, db') \<Rightarrow>
               Recipients_loop nf db' (h(a := (h a)\<lparr>recipient := Some rcp\<rparr>)) rest (acc @ [sRec])))"

text \<open>
  \<open>Recipients\<close>: the result, the database, the heap and the Sharing after the call. The field
  \<open>SRecipients\<close> is assigned only when the loop has ended without an error.
\<close>

definition Recipients ::
  "('e \<Rightarrow> bool) \<Rightarrow> ('e, 'r, 'p) Database \<Rightarrow> 'r heap \<Rightarrow> 'p Sharing
     \<Rightarrow> ('e error + nat option list) \<times> ('e, 'r, 'p) Database \<times> 'r heap \<times> 'p Sharing" where
  "Recipients nf db h s =
     (case Recipients_loop nf db h (SRecipients s) [] of
        (Inl err, db', h') \<Rightarrow> (Inl err, db', h', s)
      | (Inr sRecipients, db', h') \<Rightarrow>
          (Inr sRecipients, db', h', s\<lparr>SRecipients := sRecipients\<rparr>))"

subsection \<open>The JSON-API view\<close>

text \<open>
  \<open>jsonapi.Relationship\<close>, of which the code fills the field \<open>Data\<close>, and
  \<open>jsonapi.RelationshipMap\<close>, a Go map from names to relationships.
\<close>

record Relationship =
  Data :: "ResourceIdentifier list"

type_synonym RelationshipMap = "string \<rightharpoonup> Relationship"

text \<open>
  The loop of \<open>Relationships\<close>: \<open>data\<close> is the slice made with length \<open>l\<close>, \<open>i\<close> the running
  index. \<open>rID\<close> and \<open>rDocType\<close> are the methods \<open>ID()\<close> and \<open>DocType()\<close> of a Recipient,
  declared with that type outside this file; a nil receiver is taken as a nil dereference.
\<close>

fun Relationships_loop ::
  "('r \<Rightarrow> string) \<Rightarrow> ('r \<Rightarrow> string) \<Rightarrow> 'r heap \<Rightarrow> nat option list \<Rightarrow> ResourceIdentifier list \<Rightarrow> nat
     \<Rightarrow> 'e error + ResourceIdentifier list" where
  "Relationships_loop rID rDocType h [] data i = Inr data"
| "Relationships_loop rID rDocType h (sRec # rest) data i =
     (case sRec of
        None \<Rightarrow> Inl NilDereference
      | Some a \<Rightarrow>
          (case recipient (h a) of
             None \<Rightarrow> Inl NilDereference
           | Some r \<Rightarrow>
               if i < length data
               then Relationships_loop rID rDocType h rest
                      (data[i := \<lparr>ID = rID r, Type = rDocType r\<rparr>]) (i + 1)
               else Inl IndexOutOfRange))"

definition Relationships ::
  "('r \<Rightarrow> string) \<Rightarrow> ('r \<Rightarrow> string) \<Rightarrow> 'r heap \<Rightarrow> 'p Sharing \<Rightarrow> 'e error + RelationshipMap" where
  "Relationships rID rDocType h s =
     (let l = length (SRecipients s);
          data = replicate l \<lparr>ID = '''', Type = ''''\<rparr>
      in case Relationships_loop rID rDocType h (SRecipients s) data 0 of
           Inl err \<Rightarrow> Inl err
         | Inr data' \<Rightarrow> Inr (Map.empty(''recipients'' \<mapsto> \<lparr>Data = data'\<rparr>)))"

text \<open>
  \<open>Included\<close>: the back-references in stored order, as \<open>jsonapi.Object\<close> values. A nil
  back-reference is appended as it is (\<open>None\<close>); only a nil association pointer stops the loop.
\<close>

fun Included_loop :: "'r heap \<Rightarrow> nat option list \<Rightarrow> 'r option list \<Rightarrow> 'e error + 'r option list" where
  "Included_loop h [] included = Inr included"
| "Included_loop h (sRec # rest) included =
     (case sRec of
        None \<Rightarrow> Inl NilDereference
      | Some a \<Rightarrow> Included_loop h rest (included @ [recipient (h a)]))"

definition Included :: "'r heap \<Rightarrow> 'p Sharing \<Rightarrow> 'e error + 'r option list" where
  "Included h s = Included_loop h (SRecipients s) []"

subsection \<open>Validation and creation\<close>

definition CheckSharingType :: "string \<Rightarrow> 'e error option" where
  "CheckSharingType sharingType =
     (if sharingType = OneShotSharing \<or> sharingType = MasterSlaveSharing
         \<or> sharingType = MasterMasterSharing
      then None else Some ErrBadSharingType)"

text \<open>
  \<open>Create\<close>: one insertion. The document is passed by pointer, so the identifier and the
  revision set by the store are seen by the caller: the document after the call is returned.
\<close>

definition Create ::
  "('e, 'r, 'p) Database \<Rightarrow> 'p Sharing \<Rightarrow> 'e error option \<times> 'p Sharing \<times> ('e, 'r, 'p) Database" where
  "Create db doc =
     (let db' = db\<lparr>calls := calls db @ [CreateDocCall doc]\<rparr> in
      case CreateDoc db doc of
        Inl err \<Rightarrow> (Some (Foreign err), doc, db')
      | Inr (id', rev') \<Rightarrow> (None, SetRev (SetID doc id') rev', db'))"

text \<open>
  \<open>CreateSharingRequest\<close>. \<open>UnmarshalScopeString\<close> is the scope parser of the permissions
  package, a parameter. The result is the pair of Go, a \<open>*Sharing\<close> (\<open>None\<close> is nil) and an
  error (\<open>None\<close> is nil), with the database after the call.
\<close>

definition CreateSharingRequest ::
  "(string \<Rightarrow> 'e + 'p) \<Rightarrow> ('e, 'r, 'p) Database \<Rightarrow> string \<Rightarrow> string \<Rightarrow> string \<Rightarrow> string
     \<Rightarrow> 'p Sharing option \<times> 'e error option \<times> ('e, 'r, 'p) Database" where
  "CreateSharingRequest UnmarshalScopeString db desc state sharingType scope =
     (if state = '''' then (None, Some ErrMissingState, db)
      else case CheckSharingType sharingType of
        Some err \<Rightarrow> (None, Some err, db)
      | None \<Rightarrow>
          if scope = '''' then (None, Some ErrMissingScope, db)
          else case UnmarshalScopeString scope of
            Inl err \<Rightarrow> (None, Some (Foreign err), db)
          | Inr permissions \<Rightarrow>
              (let sharing = \<lparr>SID = '''', SRev = '''', Type = '''', Owner = False, Desc = desc,
                              SharingID = state, SharingType = sharingType,
                              Permissions = Some permissions, SRecipients = []\<rparr>
               in case Create db sharing of
                    (err, sharing', db') \<Rightarrow> (Some sharing', err, db')))"

text \<open>The second loop of \<open>CheckSharingCreation\<close>: every association gets the status pending.\<close>

fun set_pending :: "'r heap \<Rightarrow> nat option list \<Rightarrow> 'e error option \<times> 'r heap" where
  "set_pending h [] = (None, h)"
| "set_pending h (sRec # rest) =
     (case sRec of
        None \<Rightarrow> (Some NilDereference, h)
      | Some a \<Rightarrow> set_pending (h(a := (h a)\<lparr>Status := PendingSharingStatus\<rparr>)) rest)"

text \<open>
  \<open>CheckSharingCreation\<close>: the error (\<open>None\<close> is nil), and the database, the heap, the
  Sharing and the random source after the call.
\<close>

definition CheckSharingCreation ::
  "('e \<Rightarrow> bool) \<Rightarrow> ('e, 'r, 'p) Database \<Rightarrow> 'r heap \<Rightarrow> rand \<Rightarrow> 'p Sharing
     \<Rightarrow> 'e error option \<times> ('e, 'r, 'p) Database \<times> 'r heap \<times> rand \<times> 'p Sharing" where
  "CheckSharingCreation nf db h g sharing =
     (case CheckSharingType (SharingType sharing) of
        Some err \<Rightarrow> (Some err, db, h, g, sharing)
      | None \<Rightarrow>
          (case Recipients nf db h sharing of
             (Inl err, db', h', sharing') \<Rightarrow> (Some err, db', h', g, sharing')
           | (Inr sRecipients, db', h', sharing') \<Rightarrow>
               (case set_pending h' sRecipients of
                  (Some err, h'') \<Rightarrow> (Some err, db', h'', g, sharing')
                | (None, h'') \<Rightarrow>
                    (let (sid, g') = RandomString g 32
                     in (None, db', h'', g', sharing'\<lparr>Owner := True, SharingID := sid\<rparr>)))))"

section \<open>Vocabulary of the properties\<close>

text \<open>
  A recipient id resolves in a database when the read of the Recipient document with that id
  returns a document and no error.
\<close>

definition resolves :: "('e, 'r, 'p) Database \<Rightarrow> string \<Rightarrow> bool" where
  "resolves db recID = (\<not> isl (GetDoc db Recipients_doctype recID))"

text \<open>The recipient id referenced by the association at address \<open>a\<close>: \<open>sRec.RefRecipient.ID\<close>.\<close>

definition refID :: "'r heap \<Rightarrow> nat \<Rightarrow> string" where
  "refID h a = ID (RefRecipient (h a))"

text \<open>The reads of the store that resolve the associations at the addresses \<open>as\<close>, in order.\<close>

definition fetch_calls :: "'r heap \<Rightarrow> nat list \<Rightarrow> 'p store_call list" where
  "fetch_calls h as = map (\<lambda>a. GetDocCall Recipients_doctype (refID h a)) as"

text \<open>The associations that come before the first one whose recipient id does not resolve.\<close>

definition resolved_prefix :: "('e, 'r, 'p) Database \<Rightarrow> 'r heap \<Rightarrow> nat list \<Rightarrow> nat list" where
  "resolved_prefix db h as = takeWhile (\<lambda>a. resolves db (refID h a)) as"

text \<open>
  The heap in which the associations at the addresses in \<open>A\<close> have their back-reference set
  to the document the store returns for their recipient id; used to describe the heap after
  the loop of \<open>Recipients\<close>.
\<close>

definition populate :: "('e, 'r, 'p) Database \<Rightarrow> 'r heap \<Rightarrow> nat set \<Rightarrow> 'r heap" where
  "populate db h A =
     (\<lambda>a. if a \<in> A
          then (case GetDoc db Recipients_doctype (refID h a) of
                  Inr r \<Rightarrow> (h a)\<lparr>recipient := Some r\<rparr>
                | Inl _ \<Rightarrow> h a)
          else h a)"

text \<open>The identifier \<open>Relationships\<close> builds from a Recipient.\<close>

definition resource_identifier :: "('r \<Rightarrow> string) \<Rightarrow> ('r \<Rightarrow> string) \<Rightarrow> 'r \<Rightarrow> ResourceIdentifier" where
  "resource_identifier rID rDocType r = \<lparr>ID = rID r, Type = rDocType r\<rparr>"

text \<open>The enumeration of the sharing types, as the spec writes it.\<close>

definition sharing_types :: "string set" where
  "sharing_types = {''one-shot'', ''master-slave'', ''master-master''}"

text \<open>The Sharing literal that \<open>CreateSharingRequest\<close> builds and hands to \<open>Create\<close>.\<close>

definition request_sharing :: "string \<Rightarrow> string \<Rightarrow> string \<Rightarrow> 'p \<Rightarrow> 'p Sharing" where
  "request_sharing desc state sharingType permissions =
     \<lparr>SID = '''', SRev = '''', Type = '''', Owner = False, Desc = desc, SharingID = state,
      SharingType = sharingType, Permissions = Some permissions, SRecipients = []\<rparr>"

section \<open>Example data\<close>

text \<open>
  Recipients are pairs of an id and an address, the errors of the other packages are strings.
  The store \<open>ex_db\<close> knows the recipient "r1" only and answers "not_found" otherwise; in
  \<open>ex_db_full\<close> every id resolves, in \<open>ex_db_down\<close> every read fails with an error that is
  not the not-found condition. In the heap \<open>ex_heap\<close> the association at address 0
  references "r1" and every other association references "r2", none of them resolved yet;
  \<open>ex_heap_resolved\<close> is the same heap with every back-reference populated. The recipients
  slices of \<open>ex_nil_sharing\<close> and \<open>ex_sharing3\<close> hold a nil pointer.
\<close>

definition ex_IsNotFoundError :: "string \<Rightarrow> bool" where
  "ex_IsNotFoundError e = (e = ''not_found'')"

definition ex_UnmarshalScopeString :: "string \<Rightarrow> string + string list" where
  "ex_UnmarshalScopeString scope = (if scope = ''io.cozy.files'' then Inr [scope] else Inl ''bad scope'')"

definition ex_DocType :: "string \<times> string \<Rightarrow> string" where
  "ex_DocType r = Recipients_doctype"

definition ex_rand :: rand where
  "ex_rand = (\<lambda>i. CHR ''x'')"

definition ex_db :: "(string, string \<times> string, string list) Database" where
  "ex_db = \<lparr>GetDoc = (\<lambda>doctype recID.
                if doctype = Recipients_doctype \<and> recID = ''r1''
                then Inr (''r1'', ''alice@example.org'') else Inl ''not_found''),
            CreateDoc = (\<lambda>doc. Inr (''s1'', ''1-abc'')),
            calls = []\<rparr>"

definition ex_db_full :: "(string, string \<times> string, string list) Database" where
  "ex_db_full = \<lparr>GetDoc = (\<lambda>doctype recID. Inr (recID, ''someone@example.org'')),
                 CreateDoc = (\<lambda>doc. Inl ''conflict''),
                 calls = []\<rparr>"


definition ex_heap :: "(string \<times> string) heap" where
  "ex_heap = (\<lambda>a. \<lparr>Status = '''', AccessToken = '''', RefreshToken = '''',
                    RefRecipient = \<lparr>ID = (if a = 0 then ''r1'' else ''r2''), Type = Recipients_doctype\<rparr>,
                    recipient = None\<rparr>)"

definition ex_heap_resolved :: "(string \<times> string) heap" where
  "ex_heap_resolved =
     (\<lambda>a. (ex_heap a)\<lparr>recipient := Some (ID (RefRecipient (ex_heap a)), ''someone@example.org'')\<rparr>)"

definition ex_sharing :: "string list Sharing" where
  "ex_sharing = \<lparr>SID = '''', SRev = '''', Type = '''', Owner = False, Desc = ''photos'',
                 SharingID = '''', SharingType = ''one-shot'', Permissions = None,
                 SRecipients = [Some 0, Some 1]\<rparr>"

definition ex_sharing3 :: "string list Sharing" where
  "ex_sharing3 = \<lparr>SID = '''', SRev = '''', Type = '''', Owner = False, Desc = ''photos'',
                  SharingID = '''', SharingType = ''one-shot'', Permissions = None,
                  SRecipients = [Some 0, Some 1, Some 2, None]\<rparr>"

definition ex_nil_sharing :: "string list Sharing" where
  "ex_nil_sharing = \<lparr>SID = '''', SRev = '''', Type = '''', Owner = False, Desc = ''photos'',
                     SharingID = '''', SharingType = ''one-shot'', Permissions = None,
                     SRecipients = [Some 0, None]\<rparr>"

definition ex_bad_type_sharing :: "string list Sharing" where
  "ex_bad_type_sharing = \<lparr>SID = '''', SRev = '''', Type = '''', Owner = False, Desc = ''photos'',
                 SharingID = '''', SharingType = ''bad-type'', Permissions = None,
                 SRecipients = [Some 0, Some 1]\<rparr>"

definition ex_empty_sharing :: "string list Sharing" where
  "ex_empty_sharing = \<lparr>SID = ''s0'', SRev = ''1-a'', Type = '''', Owner = True, Desc = '''',
                       SharingID = ''abc'', SharingType = ''one-shot'', Permissions = None,
                       SRecipients = []\<rparr>"

section \<open>Properties\<close>

subsection \<open>The loops, step by step\<close>

text \<open>
  Each loop is described by what it has done after a prefix of proper pointers: the reads it
  has logged, the heap it has reached and the slice it has built.
\<close>

lemma GetRecipient_resolves:
  "GetDoc db Recipients_doctype recID = Inr r \<Longrightarrow>
   GetRecipient nf db recID = (Inr r, db\<lparr>calls := calls db @ [GetDocCall Recipients_doctype recID]\<rparr>)"
  by (simp add: GetRecipient_def)

lemma GetRecipient_fails:
  "GetDoc db Recipients_doctype recID = Inl e \<Longrightarrow>
   GetRecipient nf db recID =
     (Inl (if nf e then ErrRecipientDoesNotExist else Foreign e),
      db\<lparr>calls := calls db @ [GetDocCall Recipients_doctype recID]\<rparr>)"
  by (simp add: GetRecipient_def)

lemma populate_empty: "populate db h {} = h"
  by (simp add: populate_def)

lemma populate_step:
  assumes "GetDoc db Recipients_doctype (refID h a) = Inr r"
  shows "populate (db\<lparr>calls := c\<rparr>) (h(a := (h a)\<lparr>recipient := Some r\<rparr>)) A = populate db h (insert a A)"
  using assms by (auto simp: populate_def refID_def fun_eq_iff split: sum.splits)

lemma refID_update: "refID (h(a := (h a)\<lparr>recipient := x\<rparr>)) b = refID h b"
  by (simp add: refID_def)

lemma fetch_calls_update: "fetch_calls (h(a := (h a)\<lparr>recipient := x\<rparr>)) as = fetch_calls h as"
  by (simp add: fetch_calls_def refID_update)

lemma Recipients_loop_prefix:
  "\<forall>a \<in> set pre. resolves db (refID h a) \<Longrightarrow>
   Recipients_loop nf db h (map Some pre @ rest) acc =
   Recipients_loop nf (db\<lparr>calls := calls db @ fetch_calls h pre\<rparr>) (populate db h (set pre)) rest
     (acc @ map Some pre)"
proof (induction pre arbitrary: db h acc)
  case Nil
  then show ?case by (simp add: fetch_calls_def populate_empty)
next
  case (Cons a pre)
  from Cons.prems obtain r where r: "GetDoc db Recipients_doctype (refID h a) = Inr r"
    by (cases "GetDoc db Recipients_doctype (refID h a)") (auto simp: resolves_def)
  let ?db = "db\<lparr>calls := calls db @ [GetDocCall Recipients_doctype (refID h a)]\<rparr>"
  let ?h = "h(a := (h a)\<lparr>recipient := Some r\<rparr>)"
  have res: "\<forall>b \<in> set pre. resolves ?db (refID ?h b)"
    using Cons.prems by (simp add: resolves_def refID_update)
  have "Recipients_loop nf db h (map Some (a # pre) @ rest) acc =
        Recipients_loop nf ?db ?h (map Some pre @ rest) (acc @ [Some a])"
    using r by (simp add: GetRecipient_resolves refID_def)
  also have "\<dots> = Recipients_loop nf (?db\<lparr>calls := calls ?db @ fetch_calls ?h pre\<rparr>)
                      (populate ?db ?h (set pre)) rest ((acc @ [Some a]) @ map Some pre)"
    by (rule Cons.IH [OF res])
  also have "?db\<lparr>calls := calls ?db @ fetch_calls ?h pre\<rparr> = db\<lparr>calls := calls db @ fetch_calls h (a # pre)\<rparr>"
    by (simp add: fetch_calls_update) (simp add: fetch_calls_def)
  also have "populate ?db ?h (set pre) = populate db h (set (a # pre))"
    using populate_step [OF r] by simp
  finally show ?case by simp
qed

lemma populate_fields:
  "Status (populate db h A a) = Status (h a)"
  "AccessToken (populate db h A a) = AccessToken (h a)"
  "RefreshToken (populate db h A a) = RefreshToken (h a)"
  "RefRecipient (populate db h A a) = RefRecipient (h a)"
  by (simp_all add: populate_def split: sum.splits)

lemma populate_recipient_out: "a \<notin> A \<Longrightarrow> populate db h A a = h a"
  by (simp add: populate_def)

lemma Recipients_loop_all:
  assumes "\<forall>a \<in> set as. resolves db (refID h a)"
  shows "Recipients_loop nf db h (map Some as) acc =
         (Inr (acc @ map Some as), db\<lparr>calls := calls db @ fetch_calls h as\<rparr>, populate db h (set as))"
  using Recipients_loop_prefix [OF assms, of nf "[]" acc] by simp

lemma Recipients_loop_first_failure:
  assumes pre: "\<forall>a \<in> set pre. resolves db (refID h a)"
    and bad: "GetDoc db Recipients_doctype (refID h b) = Inl e"
  shows "Recipients_loop nf db h (map Some pre @ Some b # rest) acc =
         (Inl (if nf e then ErrRecipientDoesNotExist else Foreign e),
          db\<lparr>calls := calls db @ fetch_calls h (pre @ [b])\<rparr>, populate db h (set pre))"
proof -
  have "refID (populate db h (set pre)) b = refID h b"
    by (simp add: refID_def populate_fields)
  then show ?thesis
    using bad
    by (simp add: Recipients_loop_prefix [OF pre] GetRecipient_fails fetch_calls_def refID_def)
qed

lemma first_unresolved:
  assumes "\<exists>a \<in> set as. \<not> resolves db (refID h a)"
  obtains pre b rest e where "as = pre @ b # rest"
    and "\<forall>a \<in> set pre. resolves db (refID h a)"
    and "GetDoc db Recipients_doctype (refID h b) = Inl e"
proof -
  from assms obtain pre b rest where split: "as = pre @ b # rest"
    and b: "\<not> resolves db (refID h b)" and pre: "\<forall>a \<in> set pre. \<not> \<not> resolves db (refID h a)"
    using split_list_first_prop [of as "\<lambda>a. \<not> resolves db (refID h a)"] by blast
  from b obtain e where "GetDoc db Recipients_doctype (refID h b) = Inl e"
    by (cases "GetDoc db Recipients_doctype (refID h b)") (auto simp: resolves_def)
  with split pre that show thesis by blast
qed

lemma set_pending_all:
  "set_pending h (map Some as) =
     (None, \<lambda>a. if a \<in> set as then (h a)\<lparr>Status := PendingSharingStatus\<rparr> else h a)"
proof (induction as arbitrary: h)
  case Nil
  then show ?case by simp
next
  case (Cons a as)
  show ?case by (simp add: Cons.IH) (auto simp: fun_eq_iff)
qed

lemma Included_loop_all:
  "Included_loop h (map Some as) included = Inr (included @ map (\<lambda>a. recipient (h a)) as)"
  by (induction as arbitrary: included) simp_all

lemma Relationships_loop_all:
  assumes "\<forall>a \<in> set as. recipient (h a) \<noteq> None" and "i + length as \<le> length data"
  shows "Relationships_loop rID rDocType h (map Some as) data i =
         Inr (take i data @ map (\<lambda>a. resource_identifier rID rDocType (the (recipient (h a)))) as
              @ drop (i + length as) data)"
  using assms
proof (induction as arbitrary: data i)
  case Nil
  then show ?case by simp
next
  case (Cons a as)
  from Cons.prems obtain r where r: "recipient (h a) = Some r" by auto
  let ?data = "data[i := \<lparr>ID = rID r, Type = rDocType r\<rparr>]"
  have i: "i < length data" using Cons.prems by simp
  have "\<forall>a \<in> set as. recipient (h a) \<noteq> None" and "Suc i + length as \<le> length ?data"
    using Cons.prems by simp_all
  note IH = Cons.IH [OF this]
  have t: "take (Suc i) ?data = take i data @ [resource_identifier rID rDocType r]"
    using i by (simp add: take_Suc_conv_app_nth resource_identifier_def)
  show ?case using r i IH by (simp add: t)
qed

subsection \<open>Validation and incoming requests\<close>

lemma CheckSharingType_None_iff:
  "CheckSharingType s = None \<longleftrightarrow> s \<in> sharing_types"
  by (simp add: CheckSharingType_def sharing_types_def OneShotSharing_def
      MasterSlaveSharing_def MasterMasterSharing_def)

lemma CheckSharingType_ok: "s \<in> sharing_types \<Longrightarrow> CheckSharingType s = None"
  by (simp add: CheckSharingType_None_iff)

lemma CheckSharingType_bad:
  "s \<notin> sharing_types \<Longrightarrow> CheckSharingType s = Some ErrBadSharingType"
  by (simp add: CheckSharingType_def sharing_types_def OneShotSharing_def
      MasterSlaveSharing_def MasterMasterSharing_def)

text \<open>
  Claim C3. For every string \<open>s\<close>, \<open>CheckSharingType s\<close> returns no error if and only if
  \<open>s\<close> is one of "one-shot", "master-slave", "master-master"; for every other string it
  returns \<open>ErrBadSharingType\<close>.
\<close>

theorem CheckSharingType_enumeration:
  "(CheckSharingType s = (None :: 'e error option)
      \<longleftrightarrow> s \<in> {''one-shot'', ''master-slave'', ''master-master''})
   \<and> (s \<notin> {''one-shot'', ''master-slave'', ''master-master''}
      \<longrightarrow> CheckSharingType s = (Some ErrBadSharingType :: 'e error option))"
  by (simp add: CheckSharingType_def OneShotSharing_def MasterSlaveSharing_def
      MasterMasterSharing_def)

theorem CheckSharingType_enumeration_witness:
  "CheckSharingType ''master-slave'' = (None :: string error option)
   \<and> ''bad-type'' \<notin> {''one-shot'', ''master-slave'', ''master-master''}
   \<and> CheckSharingType ''bad-type'' = (Some ErrBadSharingType :: string error option)"
  using CheckSharingType_enumeration [of "''master-slave''", where ?'e = string]
    CheckSharingType_enumeration [of "''bad-type''", where ?'e = string]
  by simp

text \<open>
  Claim C5. \<open>CreateSharingRequest\<close> fails with one of the three validation errors whenever
  the state token is empty, or the scope string is empty, or the sharing type is not in the
  enumeration, whatever the other arguments are; the database it returns is the one it was
  given, record of store operations included: nothing was read and nothing was created.
\<close>

theorem CreateSharingRequest_validation:
  assumes "state = '''' \<or> scope = '''' \<or> sharingType \<notin> sharing_types"
  shows "\<exists>err. CreateSharingRequest UnmarshalScopeString db desc state sharingType scope
                 = (None, Some err, db)
               \<and> (err = ErrMissingState \<or> err = ErrBadSharingType \<or> err = ErrMissingScope)"
proof (cases "state = ''''")
  case True
  then show ?thesis by (simp add: CreateSharingRequest_def)
next
  case state: False
  show ?thesis
  proof (cases "sharingType \<in> sharing_types")
    case False
    then show ?thesis
      using state by (simp add: CreateSharingRequest_def CheckSharingType_bad)
  next
    case True
    with state assms have "scope = ''''" by simp
    moreover have "CheckSharingType sharingType = (None :: 'a error option)"
      using True by (simp add: CheckSharingType_None_iff)
    ultimately show ?thesis using state by (simp add: CreateSharingRequest_def)
  qed
qed

theorem CreateSharingRequest_validation_witness:
  "('''' = '''' \<or> ''io.cozy.files'' = '''' \<or> ''bad-type'' \<notin> sharing_types)
   \<and> (\<exists>err. CreateSharingRequest ex_UnmarshalScopeString ex_db ''d'' '''' ''bad-type'' ''io.cozy.files''
                 = (None, Some err, ex_db)
               \<and> (err = ErrMissingState \<or> err = ErrBadSharingType \<or> err = ErrMissingScope))
   \<and> (''tok'' = '''' \<or> '''' = '''' \<or> ''one-shot'' \<notin> sharing_types)
   \<and> (\<exists>err. CreateSharingRequest ex_UnmarshalScopeString ex_db ''d'' ''tok'' ''one-shot'' ''''
                 = (None, Some err, ex_db)
               \<and> (err = ErrMissingState \<or> err = ErrBadSharingType \<or> err = ErrMissingScope))
   \<and> (''tok'' = '''' \<or> ''io.cozy.files'' = '''' \<or> ''bad-type'' \<notin> sharing_types)
   \<and> (\<exists>err. CreateSharingRequest ex_UnmarshalScopeString ex_db ''d'' ''tok'' ''bad-type'' ''io.cozy.files''
                 = (None, Some err, ex_db)
               \<and> (err = ErrMissingState \<or> err = ErrBadSharingType \<or> err = ErrMissingScope))"
proof -
  have a: "'''' = '''' \<or> ''io.cozy.files'' = '''' \<or> ''bad-type'' \<notin> sharing_types"
    by simp
  have b: "''tok'' = '''' \<or> '''' = '''' \<or> ''one-shot'' \<notin> sharing_types"
    by simp
  have c: "''tok'' = '''' \<or> ''io.cozy.files'' = '''' \<or> ''bad-type'' \<notin> sharing_types"
    by (simp add: sharing_types_def)
  show ?thesis
    using a b c
      CreateSharingRequest_validation [OF a, of ex_UnmarshalScopeString ex_db "''d''"]
      CreateSharingRequest_validation [OF b, of ex_UnmarshalScopeString ex_db "''d''"]
      CreateSharingRequest_validation [OF c, of ex_UnmarshalScopeString ex_db "''d''"]
    by blast
qed

text \<open>
  Claim C9. The checks of \<open>CreateSharingRequest\<close> come in a fixed order: an empty state
  token gives \<open>ErrMissingState\<close> whatever the sharing type and the scope are; with a state
  token, a sharing type outside the enumeration gives \<open>ErrBadSharingType\<close> whatever the
  scope is; and \<open>ErrMissingScope\<close> is returned only when the state token is not empty and
  the sharing type is in the enumeration (and then the scope is empty).
\<close>

theorem CreateSharingRequest_check_order:
  "(state = '''' \<longrightarrow>
      CreateSharingRequest UnmarshalScopeString db desc state sharingType scope
        = (None, Some ErrMissingState, db))
   \<and> (state \<noteq> '''' \<and> sharingType \<notin> sharing_types \<longrightarrow>
      CreateSharingRequest UnmarshalScopeString db desc state sharingType scope
        = (None, Some ErrBadSharingType, db))
   \<and> (fst (snd (CreateSharingRequest UnmarshalScopeString db desc state sharingType scope))
        = Some ErrMissingScope \<longrightarrow>
      state \<noteq> '''' \<and> sharingType \<in> sharing_types \<and> scope = '''')"
proof (intro conjI impI)
  assume "state = ''''"
  then show "CreateSharingRequest UnmarshalScopeString db desc state sharingType scope
        = (None, Some ErrMissingState, db)"
    by (simp add: CreateSharingRequest_def)
next
  assume "state \<noteq> '''' \<and> sharingType \<notin> sharing_types"
  then show "CreateSharingRequest UnmarshalScopeString db desc state sharingType scope
        = (None, Some ErrBadSharingType, db)"
    by (simp add: CreateSharingRequest_def CheckSharingType_bad)
next
  assume scope: "fst (snd (CreateSharingRequest UnmarshalScopeString db desc state sharingType scope))
        = Some ErrMissingScope"
  show "state \<noteq> ''''"
    using scope by (auto simp: CreateSharingRequest_def)
  show "sharingType \<in> sharing_types"
    using scope
    by (cases "sharingType \<in> sharing_types")
       (auto simp: CreateSharingRequest_def CheckSharingType_bad split: if_splits)
  show "scope = ''''"
    using scope
    by (auto simp: CreateSharingRequest_def Create_def CheckSharingType_def Let_def
        split: if_splits sum.splits prod.splits)
qed

theorem CreateSharingRequest_check_order_witness:
  "CreateSharingRequest ex_UnmarshalScopeString ex_db ''d'' '''' ''bad-type'' ''''
     = (None, Some ErrMissingState, ex_db)
   \<and> ''tok'' \<noteq> '''' \<and> ''bad-type'' \<notin> sharing_types
   \<and> CreateSharingRequest ex_UnmarshalScopeString ex_db ''d'' ''tok'' ''bad-type'' ''''
     = (None, Some ErrBadSharingType, ex_db)
   \<and> fst (snd (CreateSharingRequest ex_UnmarshalScopeString ex_db ''d'' ''tok'' ''one-shot'' ''''))
     = Some ErrMissingScope
   \<and> ''one-shot'' \<in> sharing_types"
proof -
  have a: "''tok'' \<noteq> '''' \<and> ''bad-type'' \<notin> sharing_types"
    by (simp add: sharing_types_def)
  have b: "fst (snd (CreateSharingRequest ex_UnmarshalScopeString ex_db ''d'' ''tok'' ''one-shot'' ''''))
     = Some ErrMissingScope"
    by (simp add: CreateSharingRequest_def CheckSharingType_def OneShotSharing_def)
  show ?thesis
    using a b
      CreateSharingRequest_check_order [of "''''" ex_UnmarshalScopeString ex_db "''d''" "''bad-type''" "''''"]
      CreateSharingRequest_check_order [of "''tok''" ex_UnmarshalScopeString ex_db "''d''" "''bad-type''" "''''"]
      CreateSharingRequest_check_order [of "''tok''" ex_UnmarshalScopeString ex_db "''d''" "''one-shot''" "''''"]
    by simp
qed

text \<open>
  Claim C4. With a state token and a scope string that are not empty, a sharing type of the
  enumeration and a scope that parses to \<open>permissions\<close>, \<open>CreateSharingRequest\<close> returns a
  Sharing whose \<open>Owner\<close> is false, whose \<open>SharingID\<close> is the state token, whose \<open>Desc\<close> is
  the description and whose \<open>Permissions\<close> is the parsed set, and it inserts it into the
  store: the one store operation of the call is \<open>CreateDoc\<close> on the Sharing built from the
  arguments, and the error returned beside the Sharing is the answer of the store to it.
\<close>

theorem CreateSharingRequest_valid:
  assumes "state \<noteq> ''''" and "sharingType \<in> sharing_types" and "scope \<noteq> ''''"
    and "UnmarshalScopeString scope = Inr permissions"
  shows "\<exists>sharing err db'.
           CreateSharingRequest UnmarshalScopeString db desc state sharingType scope
             = (Some sharing, err, db')
           \<and> \<not> Owner sharing \<and> SharingID sharing = state \<and> Desc sharing = desc
           \<and> Permissions sharing = Some permissions \<and> SharingType sharing = sharingType
           \<and> calls db' = calls db @ [CreateDocCall (request_sharing desc state sharingType permissions)]
           \<and> GetDoc db' = GetDoc db \<and> CreateDoc db' = CreateDoc db
           \<and> err = (case CreateDoc db (request_sharing desc state sharingType permissions) of
                      Inl e \<Rightarrow> Some (Foreign e) | Inr _ \<Rightarrow> None)"
proof -
  have "CheckSharingType sharingType = (None :: 'a error option)"
    using assms(2) by (simp add: CheckSharingType_None_iff)
  then show ?thesis
    using assms(1,3,4)
    by (auto simp: CreateSharingRequest_def Create_def request_sharing_def SetID_def SetRev_def
        Let_def split: sum.splits)
qed

theorem CreateSharingRequest_valid_witness:
  "''tok'' \<noteq> '''' \<and> ''master-master'' \<in> sharing_types \<and> ''io.cozy.files'' \<noteq> ''''
   \<and> ex_UnmarshalScopeString ''io.cozy.files'' = Inr [''io.cozy.files'']
   \<and> (\<exists>sharing err db'.
         CreateSharingRequest ex_UnmarshalScopeString ex_db ''d'' ''tok'' ''master-master'' ''io.cozy.files''
           = (Some sharing, err, db')
         \<and> \<not> Owner sharing \<and> SharingID sharing = ''tok'' \<and> Desc sharing = ''d''
         \<and> Permissions sharing = Some [''io.cozy.files''] \<and> SharingType sharing = ''master-master''
         \<and> calls db' = calls ex_db @ [CreateDocCall (request_sharing ''d'' ''tok'' ''master-master'' [''io.cozy.files''])]
         \<and> GetDoc db' = GetDoc ex_db \<and> CreateDoc db' = CreateDoc ex_db
         \<and> err = (case CreateDoc ex_db (request_sharing ''d'' ''tok'' ''master-master'' [''io.cozy.files'']) of
                      Inl e \<Rightarrow> Some (Foreign e) | Inr _ \<Rightarrow> None))"
proof -
  have a: "''tok'' \<noteq> ''''" by simp
  have b: "''master-master'' \<in> sharing_types" by (simp add: sharing_types_def)
  have c: "''io.cozy.files'' \<noteq> ''''" by simp
  have d: "ex_UnmarshalScopeString ''io.cozy.files'' = Inr [''io.cozy.files'']"
    by (simp add: ex_UnmarshalScopeString_def)
  show ?thesis
    using a b c d
      CreateSharingRequest_valid [of "''tok''" "''master-master''" "''io.cozy.files''"
        ex_UnmarshalScopeString "[''io.cozy.files'']" ex_db "''d''"]
    by blast
qed

subsection \<open>Resolution, creation and the JSON-API view\<close>

lemma Recipients_all:
  assumes "SRecipients s = map Some as" and "\<forall>a \<in> set as. resolves db (refID h a)"
  shows "Recipients nf db h s =
         (Inr (SRecipients s), db\<lparr>calls := calls db @ fetch_calls h as\<rparr>, populate db h (set as), s)"
proof -
  have "s\<lparr>SRecipients := map Some as\<rparr> = s"
    using assms(1) by simp
  then show ?thesis
    using assms(1) by (simp add: Recipients_def Recipients_loop_all [OF assms(2)])
qed

lemma Recipients_first_failure:
  assumes "SRecipients s = map Some pre @ Some b # rest"
    and "\<forall>a \<in> set pre. resolves db (refID h a)"
    and "GetDoc db Recipients_doctype (refID h b) = Inl e"
  shows "Recipients nf db h s =
         (Inl (if nf e then ErrRecipientDoesNotExist else Foreign e),
          db\<lparr>calls := calls db @ fetch_calls h (pre @ [b])\<rparr>, populate db h (set pre), s)"
  using assms(1) by (simp add: Recipients_def Recipients_loop_first_failure [OF assms(2,3)])

lemma resolves_populate:
  "a \<in> A \<Longrightarrow> resolves db (refID h a) \<Longrightarrow>
   \<exists>r. GetDoc db Recipients_doctype (refID h a) = Inr r \<and> recipient (populate db h A a) = Some r"
  by (cases "GetDoc db Recipients_doctype (refID h a)") (auto simp: resolves_def populate_def)

text \<open>
  Claim C6, as the claim states it, fails: the recipients slice may hold a nil pointer. With
  the slice made of the association at address 0 and a nil pointer, every referenced
  recipient id resolves in the store, and \<open>Recipients\<close> does not succeed: after the first
  association it reads \<open>sRec.RefRecipient\<close> through the nil pointer.
\<close>

theorem Recipients_nil_entry_counterexample:
  "SRecipients ex_nil_sharing = [Some 0, None]
   \<and> resolves ex_db_full (refID ex_heap 0)
   \<and> fst (Recipients ex_IsNotFoundError ex_db_full ex_heap ex_nil_sharing) = Inl NilDereference"
  by (simp add: Recipients_def GetRecipient_def ex_nil_sharing_def ex_db_full_def resolves_def)

text \<open>
  Claim C6, amended. When every entry of the recipients slice of a Sharing is a proper
  (non-nil) pointer and every referenced
  recipient id resolves in the store, \<open>Recipients\<close> succeeds and keeps the order: the list
  returned and the field \<open>SRecipients\<close> after the call are the pointers of the input list in
  the same order, and for every index \<open>i\<close> the \<open>i\<close>-th association still has its
  \<open>RefRecipient\<close> while its back-reference \<open>recipient\<close> is the entity the store returns for
  the id of that \<open>RefRecipient\<close>.
\<close>

theorem Recipients_preserves_order:
  assumes "SRecipients s = map Some as" and "\<forall>a \<in> set as. resolves db (refID h a)"
  shows "\<exists>db' h'. Recipients nf db h s = (Inr (SRecipients s), db', h', s)
           \<and> (\<forall>i < length as.
                 RefRecipient (h' (as ! i)) = RefRecipient (h (as ! i))
                 \<and> (\<exists>r. GetDoc db Recipients_doctype (ID (RefRecipient (h' (as ! i)))) = Inr r
                        \<and> recipient (h' (as ! i)) = Some r))"
proof -
  have "\<exists>r. GetDoc db Recipients_doctype (ID (RefRecipient (populate db h (set as) (as ! i)))) = Inr r
            \<and> recipient (populate db h (set as) (as ! i)) = Some r"
    if "i < length as" for i
  proof -
    from that have "as ! i \<in> set as" by simp
    with assms(2) show ?thesis
      using resolves_populate [of "as ! i" "set as" db h]
      by (simp add: populate_fields) (simp add: refID_def)
  qed
  then show ?thesis
    by (simp add: Recipients_all [OF assms] populate_fields)
qed

theorem Recipients_preserves_order_witness:
  "SRecipients ex_sharing = map Some [0, 1]
   \<and> resolves ex_db_full (refID ex_heap 0) \<and> resolves ex_db_full (refID ex_heap 1)
   \<and> (\<exists>db' h'. Recipients ex_IsNotFoundError ex_db_full ex_heap ex_sharing
                  = (Inr (SRecipients ex_sharing), db', h', ex_sharing)
           \<and> (\<forall>i < length [0, 1 :: nat].
                 RefRecipient (h' ([0, 1] ! i)) = RefRecipient (ex_heap ([0, 1] ! i))
                 \<and> (\<exists>r. GetDoc ex_db_full Recipients_doctype (ID (RefRecipient (h' ([0, 1] ! i)))) = Inr r
                        \<and> recipient (h' ([0, 1] ! i)) = Some r)))"
proof -
  have a: "SRecipients ex_sharing = map Some [0, 1]"
    by (simp add: ex_sharing_def)
  have r: "resolves ex_db_full (refID ex_heap 0) \<and> resolves ex_db_full (refID ex_heap 1)"
    by (simp add: resolves_def ex_db_full_def)
  then have b: "\<forall>a \<in> set [0, 1]. resolves ex_db_full (refID ex_heap a)"
    by simp
  show ?thesis
    using a r Recipients_preserves_order [OF a b, of ex_IsNotFoundError] by blast
qed



lemma resolved_prefix_split:
  assumes "\<forall>a \<in> set pre. resolves db (refID h a)" and "\<not> resolves db (refID h b)"
  shows "resolved_prefix db h (pre @ b # rest) = pre"
  using assms by (simp add: resolved_prefix_def takeWhile_append2)

lemma CheckSharingCreation_bad_type:
  "SharingType s \<notin> sharing_types \<Longrightarrow>
   CheckSharingCreation nf db h g s = (Some ErrBadSharingType, db, h, g, s)"
  by (simp add: CheckSharingCreation_def CheckSharingType_bad)

lemma CheckSharingCreation_first_failure:
  assumes "SharingType s \<in> sharing_types"
    and "SRecipients s = map Some pre @ Some b # rest"
    and "\<forall>a \<in> set pre. resolves db (refID h a)"
    and "GetDoc db Recipients_doctype (refID h b) = Inl e"
  shows "CheckSharingCreation nf db h g s =
         (Some (if nf e then ErrRecipientDoesNotExist else Foreign e),
          db\<lparr>calls := calls db @ fetch_calls h (pre @ [b])\<rparr>, populate db h (set pre), g, s)"
  by (simp add: CheckSharingCreation_def CheckSharingType_ok [OF assms(1)]
      Recipients_first_failure [OF assms(2,3,4)])

lemma RandomString_length: "length (fst (RandomString g n)) = n"
  by (simp add: RandomString_def)

lemma CheckSharingCreation_all:
  assumes "SharingType s \<in> sharing_types"
    and "SRecipients s = map Some as"
    and "\<forall>a \<in> set as. resolves db (refID h a)"
  shows "CheckSharingCreation nf db h g s =
         (None, db\<lparr>calls := calls db @ fetch_calls h as\<rparr>,
          (\<lambda>a. if a \<in> set as then (populate db h (set as) a)\<lparr>Status := PendingSharingStatus\<rparr>
               else populate db h (set as) a),
          snd (RandomString g 32),
          s\<lparr>Owner := True, SharingID := fst (RandomString g 32)\<rparr>)"
  using assms(2)
  by (simp add: CheckSharingCreation_def CheckSharingType_ok [OF assms(1)]
      Recipients_all [OF assms(2,3)] set_pending_all split_beta cong: if_cong)

text \<open>
  Claim C1, as the claim states it, fails: with two associations of which the first one
  resolves and the second one does not, \<open>CheckSharingCreation\<close> returns
  \<open>ErrRecipientDoesNotExist\<close>, and the back-reference of the first association, nil before
  the call, is the fetched recipient after it.
\<close>

theorem CheckSharingCreation_mutates_counterexample:
  "SRecipients ex_sharing = [Some 0, Some 1]
   \<and> resolves ex_db (refID ex_heap 0) \<and> \<not> resolves ex_db (refID ex_heap 1)
   \<and> fst (CheckSharingCreation ex_IsNotFoundError ex_db ex_heap ex_rand ex_sharing)
       = Some ErrRecipientDoesNotExist
   \<and> recipient (ex_heap 0) = None
   \<and> recipient (fst (snd (snd (CheckSharingCreation ex_IsNotFoundError ex_db ex_heap ex_rand ex_sharing))) 0)
       = Some (''r1'', ''alice@example.org'')"
  by (simp add: CheckSharingCreation_def CheckSharingType_def OneShotSharing_def Recipients_def
      GetRecipient_def ex_sharing_def ex_db_def ex_heap_def ex_IsNotFoundError_def resolves_def
      refID_def)

text \<open>
  Claim C1, amended. When every association of a Sharing is a proper pointer and at least one
  referenced recipient id does not resolve in the store, \<open>CheckSharingCreation\<close> returns an
  error, and the Sharing (\<open>Owner\<close>, \<open>SharingID\<close>, the recipients slice and every other
  field) and the random source are as before the call. Of every association the status, the
  tokens and \<open>RefRecipient\<close> are as before the call. The back-reference \<open>recipient\<close> is as
  before the call too, except for the associations that come before the first one whose id
  does not resolve, when the sharing type is valid: these hold the entity fetched for their id.
\<close>

theorem CheckSharingCreation_failure:
  assumes "SRecipients s = map Some as" and "\<exists>a \<in> set as. \<not> resolves db (refID h a)"
  shows "\<exists>err db' h'.
           CheckSharingCreation nf db h g s = (Some err, db', h', g, s)
           \<and> err \<noteq> NilDereference \<and> err \<noteq> IndexOutOfRange
           \<and> (\<forall>a. Status (h' a) = Status (h a)
                  \<and> AccessToken (h' a) = AccessToken (h a)
                  \<and> RefreshToken (h' a) = RefreshToken (h a)
                  \<and> RefRecipient (h' a) = RefRecipient (h a)
                  \<and> (if SharingType s \<in> sharing_types \<and> a \<in> set (resolved_prefix db h as)
                      then \<exists>r. GetDoc db Recipients_doctype (refID h a) = Inr r
                               \<and> recipient (h' a) = Some r
                      else recipient (h' a) = recipient (h a)))"
proof (cases "SharingType s \<in> sharing_types")
  case False
  then show ?thesis by (simp add: CheckSharingCreation_bad_type)
next
  case True
  from assms(2) obtain pre b rest e where split: "as = pre @ b # rest"
    and pre: "\<forall>a \<in> set pre. resolves db (refID h a)"
    and e: "GetDoc db Recipients_doctype (refID h b) = Inl e"
    by (rule first_unresolved)
  from e have b: "\<not> resolves db (refID h b)" by (simp add: resolves_def)
  have s: "SRecipients s = map Some pre @ Some b # map Some rest"
    using assms(1) split by simp
  have prefix: "resolved_prefix db h as = pre"
    using split resolved_prefix_split [OF pre b] by simp
  have "if a \<in> set pre
        then \<exists>r. GetDoc db Recipients_doctype (refID h a) = Inr r
                 \<and> recipient (populate db h (set pre) a) = Some r
        else recipient (populate db h (set pre) a) = recipient (h a)" for a
    using pre resolves_populate [of a "set pre" db h]
    by (simp add: populate_recipient_out)
  then show ?thesis
    using True
    by (simp add: CheckSharingCreation_first_failure [OF True s pre e] prefix populate_fields)
qed

theorem CheckSharingCreation_failure_witness:
  "SRecipients ex_sharing = map Some [0, 1]
   \<and> (\<exists>a \<in> set [0, 1]. \<not> resolves ex_db (refID ex_heap a))
   \<and> (\<exists>err db' h'.
         CheckSharingCreation ex_IsNotFoundError ex_db ex_heap ex_rand ex_sharing
           = (Some err, db', h', ex_rand, ex_sharing)
         \<and> err \<noteq> NilDereference \<and> err \<noteq> IndexOutOfRange
         \<and> (\<forall>a. Status (h' a) = Status (ex_heap a)
                \<and> AccessToken (h' a) = AccessToken (ex_heap a)
                \<and> RefreshToken (h' a) = RefreshToken (ex_heap a)
                \<and> RefRecipient (h' a) = RefRecipient (ex_heap a)
                \<and> (if SharingType ex_sharing \<in> sharing_types
                       \<and> a \<in> set (resolved_prefix ex_db ex_heap [0, 1])
                    then \<exists>r. GetDoc ex_db Recipients_doctype (refID ex_heap a) = Inr r
                             \<and> recipient (h' a) = Some r
                    else recipient (h' a) = recipient (ex_heap a))))"
proof -
  have a: "SRecipients ex_sharing = map Some [0, 1]"
    by (simp add: ex_sharing_def)
  have b: "\<exists>a \<in> set [0, 1]. \<not> resolves ex_db (refID ex_heap a)"
    by (simp add: resolves_def refID_def ex_db_def ex_heap_def)
  show ?thesis
    using a b CheckSharingCreation_failure [OF a b, of ex_IsNotFoundError ex_rand] by blast
qed

text \<open>
  Claim C2, as the claim states it, fails: \<open>CheckSharingCreation\<close> checks the sharing type
  first. A Sharing of type "bad-type" whose two recipients both resolve is refused with
  \<open>ErrBadSharingType\<close>, and its \<open>Owner\<close> stays false.
\<close>

theorem CheckSharingCreation_bad_type_counterexample:
  "SRecipients ex_bad_type_sharing = [Some 0, Some 1]
   \<and> resolves ex_db_full (refID ex_heap 0) \<and> resolves ex_db_full (refID ex_heap 1)
   \<and> fst (CheckSharingCreation ex_IsNotFoundError ex_db_full ex_heap ex_rand ex_bad_type_sharing)
       = Some ErrBadSharingType
   \<and> \<not> Owner (snd (snd (snd (snd
          (CheckSharingCreation ex_IsNotFoundError ex_db_full ex_heap ex_rand ex_bad_type_sharing)))))"
  by (simp add: CheckSharingCreation_def CheckSharingType_def OneShotSharing_def
      MasterSlaveSharing_def MasterMasterSharing_def ex_bad_type_sharing_def ex_db_full_def
      resolves_def)

text \<open>
  Claim C2, amended. When every association of a Sharing is a proper pointer, every referenced
  recipient id resolves in the store and the sharing type is one of the enumeration,
  \<open>CheckSharingCreation\<close> succeeds; afterwards \<open>Owner\<close> is true, \<open>SharingID\<close> is the string
  of 32 characters drawn from the random source, whatever it was before, every association
  has the status "pending", the recipients slice holds the same pointers, and the store
  operations of the call are the reads of the recipients, one for each association in order:
  no document is inserted.
\<close>

theorem CheckSharingCreation_success:
  assumes "SRecipients s = map Some as" and "\<forall>a \<in> set as. resolves db (refID h a)"
    and "SharingType s \<in> sharing_types"
  shows "\<exists>db' h' g' s'.
           CheckSharingCreation nf db h g s = (None, db', h', g', s')
           \<and> Owner s' \<and> SharingID s' = fst (RandomString g 32)
           \<and> length (SharingID s') = 32 \<and> SharingID s' \<noteq> ''''
           \<and> SRecipients s' = SRecipients s
           \<and> (\<forall>a \<in> set as. Status (h' a) = ''pending'')
           \<and> calls db' = calls db @ fetch_calls h as
           \<and> GetDoc db' = GetDoc db \<and> CreateDoc db' = CreateDoc db"
proof -
  have "length (fst (RandomString g 32)) = 32"
    by (rule RandomString_length)
  moreover from this have "fst (RandomString g 32) \<noteq> ''''"
    by auto
  ultimately show ?thesis
    by (simp add: CheckSharingCreation_all [OF assms(3,1,2)] PendingSharingStatus_def)
qed

theorem CheckSharingCreation_success_witness:
  "SRecipients ex_sharing = map Some [0, 1]
   \<and> resolves ex_db_full (refID ex_heap 0) \<and> resolves ex_db_full (refID ex_heap 1)
   \<and> SharingType ex_sharing \<in> sharing_types
   \<and> (\<exists>db' h' g' s'.
         CheckSharingCreation ex_IsNotFoundError ex_db_full ex_heap ex_rand ex_sharing
           = (None, db', h', g', s')
         \<and> Owner s' \<and> SharingID s' = fst (RandomString ex_rand 32)
         \<and> length (SharingID s') = 32 \<and> SharingID s' \<noteq> ''''
         \<and> SRecipients s' = SRecipients ex_sharing
         \<and> (\<forall>a \<in> set [0, 1]. Status (h' a) = ''pending'')
         \<and> calls db' = calls ex_db_full @ fetch_calls ex_heap [0, 1]
         \<and> GetDoc db' = GetDoc ex_db_full \<and> CreateDoc db' = CreateDoc ex_db_full)"
proof -
  have a: "SRecipients ex_sharing = map Some [0, 1]"
    by (simp add: ex_sharing_def)
  have r: "resolves ex_db_full (refID ex_heap 0) \<and> resolves ex_db_full (refID ex_heap 1)"
    by (simp add: resolves_def ex_db_full_def)
  then have b: "\<forall>a \<in> set [0, 1]. resolves ex_db_full (refID ex_heap a)"
    by simp
  have c: "SharingType ex_sharing \<in> sharing_types"
    by (simp add: ex_sharing_def sharing_types_def)
  show ?thesis
    using a r c CheckSharingCreation_success [OF a b c, of ex_IsNotFoundError ex_rand] by blast
qed

lemma Relationships_all:
  assumes "SRecipients s = map Some as" and "\<forall>a \<in> set as. recipient (h a) \<noteq> None"
  shows "Relationships rID rDocType h s =
         Inr (Map.empty(''recipients'' \<mapsto>
                \<lparr>Data = map (\<lambda>a. resource_identifier rID rDocType (the (recipient (h a)))) as\<rparr>))"
  using assms(1) by (simp add: Relationships_def Relationships_loop_all [OF assms(2)])

lemma Included_all:
  assumes "SRecipients s = map Some as"
  shows "Included h s = Inr (map (\<lambda>a. recipient (h a)) as)"
  using assms by (simp add: Included_def Included_loop_all)

text \<open>
  Claim C8, as the claim states it, fails: with every back-reference populated and a nil
  pointer in the recipients slice, \<open>Relationships\<close> and \<open>Included\<close> return nothing; both
  read \<open>rec.recipient\<close> through the nil pointer.
\<close>

theorem Relationships_nil_entry_counterexample:
  "SRecipients ex_nil_sharing = [Some 0, None]
   \<and> recipient (ex_heap_resolved 0) \<noteq> None
   \<and> Relationships fst ex_DocType ex_heap_resolved ex_nil_sharing
       = (Inl NilDereference :: string error + RelationshipMap)
   \<and> Included ex_heap_resolved ex_nil_sharing
       = (Inl NilDereference :: string error + (string \<times> string) option list)"
  by (simp add: Relationships_def Included_def ex_nil_sharing_def ex_heap_resolved_def)

text \<open>
  Claim C8, amended. For a Sharing with \<open>N\<close> associations, every entry of its recipients
  slice a proper (non-nil) pointer, whose back-references are all populated,
  \<open>Relationships\<close> returns the map with the single group "recipients", whose data are \<open>N\<close>
  resource identifiers, \<open>Included\<close> returns \<open>N\<close> entities, and for every index \<open>i\<close> the
  \<open>i\<close>-th entity is the recipient of the \<open>i\<close>-th association and the \<open>i\<close>-th identifier
  holds the id and the document type of that entity.
\<close>

theorem Relationships_matches_Included:
  assumes "SRecipients s = map Some as" and "\<forall>a \<in> set as. recipient (h a) \<noteq> None"
  shows "\<exists>ids objs.
           Relationships rID rDocType h s = Inr (Map.empty(''recipients'' \<mapsto> \<lparr>Data = ids\<rparr>))
           \<and> Included h s = Inr objs
           \<and> length ids = length as \<and> length objs = length as
           \<and> (\<forall>i < length as. \<exists>r.
                 recipient (h (as ! i)) = Some r \<and> objs ! i = Some r
                 \<and> ID (ids ! i) = rID r \<and> ResourceIdentifier.Type (ids ! i) = rDocType r)"
proof -
  have "\<exists>r. recipient (h (as ! i)) = Some r
            \<and> ID (resource_identifier rID rDocType (the (recipient (h (as ! i))))) = rID r
            \<and> ResourceIdentifier.Type (resource_identifier rID rDocType (the (recipient (h (as ! i)))))
                = rDocType r"
    if "i < length as" for i
  proof -
    from that have "as ! i \<in> set as" by simp
    with assms(2) obtain r where "recipient (h (as ! i)) = Some r" by auto
    then show ?thesis by (simp add: resource_identifier_def)
  qed
  then show ?thesis
    unfolding Relationships_all [OF assms] Included_all [OF assms(1)]
    by (intro exI [of _ "map (\<lambda>a. resource_identifier rID rDocType (the (recipient (h a)))) as"]
          exI [of _ "map (\<lambda>a. recipient (h a)) as"]) simp
qed

theorem Relationships_matches_Included_witness:
  "SRecipients ex_sharing = map Some [0, 1]
   \<and> recipient (ex_heap_resolved 0) \<noteq> None \<and> recipient (ex_heap_resolved 1) \<noteq> None
   \<and> (\<exists>ids objs.
         Relationships fst ex_DocType ex_heap_resolved ex_sharing
           = (Inr (Map.empty(''recipients'' \<mapsto> \<lparr>Data = ids\<rparr>)) :: string error + RelationshipMap)
         \<and> Included ex_heap_resolved ex_sharing = (Inr objs :: string error + (string \<times> string) option list)
         \<and> length ids = length [0, 1 :: nat] \<and> length objs = length [0, 1 :: nat]
         \<and> (\<forall>i < length [0, 1 :: nat]. \<exists>r.
               recipient (ex_heap_resolved ([0, 1] ! i)) = Some r \<and> objs ! i = Some r
               \<and> ID (ids ! i) = fst r \<and> ResourceIdentifier.Type (ids ! i) = ex_DocType r))"
proof -
  have a: "SRecipients ex_sharing = map Some [0, 1]"
    by (simp add: ex_sharing_def)
  have r: "recipient (ex_heap_resolved 0) \<noteq> None \<and> recipient (ex_heap_resolved 1) \<noteq> None"
    by (simp add: ex_heap_resolved_def)
  then have b: "\<forall>a \<in> set [0, 1]. recipient (ex_heap_resolved a) \<noteq> None"
    by simp
  show ?thesis
    using a r Relationships_matches_Included [OF a b, of fst ex_DocType] by blast
qed

text \<open>
  Claim C10, as the claim states it, fails: populated back-references do not make the two
  functions total. With the back-reference of every association populated and a nil pointer
  as the last entry of the recipients slice, \<open>Relationships\<close> and \<open>Included\<close> both end in a
  nil dereference.
\<close>

theorem Relationships_Included_nil_entry_counterexample:
  "SRecipients ex_sharing3 = [Some 0, Some 1, Some 2, None]
   \<and> recipient (ex_heap_resolved 0) \<noteq> None \<and> recipient (ex_heap_resolved 1) \<noteq> None
   \<and> recipient (ex_heap_resolved 2) \<noteq> None
   \<and> Relationships fst ex_DocType ex_heap_resolved ex_sharing3
       = (Inl NilDereference :: string error + RelationshipMap)
   \<and> Included ex_heap_resolved ex_sharing3
       = (Inl NilDereference :: string error + (string \<times> string) option list)"
  by (simp add: Relationships_def Included_def ex_sharing3_def ex_heap_resolved_def)

text \<open>
  Claim C10, amended. When every entry of the recipients slice of a Sharing is a proper
  (non-nil) pointer to an association whose back-reference is
  populated, \<open>Relationships\<close> and \<open>Included\<close> return normally: neither ends in a nil
  dereference or an index out of range. For a Sharing without recipients \<open>Relationships\<close>
  returns the group "recipients" with an empty list of identifiers and \<open>Included\<close> returns
  an empty list.
\<close>

theorem Relationships_Included_total:
  "(SRecipients s = map Some as \<and> (\<forall>a \<in> set as. recipient (h a) \<noteq> None)
      \<longrightarrow> (\<exists>m objs. Relationships rID rDocType h s = Inr m \<and> Included h s = Inr objs))
   \<and> (SRecipients s = []
      \<longrightarrow> Relationships rID rDocType h s = Inr (Map.empty(''recipients'' \<mapsto> \<lparr>Data = []\<rparr>))
          \<and> Included h s = Inr [])"
proof (intro conjI impI)
  assume "SRecipients s = map Some as \<and> (\<forall>a \<in> set as. recipient (h a) \<noteq> None)"
  then have s: "SRecipients s = map Some as" and r: "\<forall>a \<in> set as. recipient (h a) \<noteq> None"
    by simp_all
  show "\<exists>m objs. Relationships rID rDocType h s = Inr m \<and> Included h s = Inr objs"
    by (simp add: Relationships_all [OF s r] Included_all [OF s])
next
  assume "SRecipients s = []"
  then show "Relationships rID rDocType h s = Inr (Map.empty(''recipients'' \<mapsto> \<lparr>Data = []\<rparr>))"
    by (simp add: Relationships_def)
next
  assume "SRecipients s = []"
  then show "Included h s = Inr []"
    by (simp add: Included_def)
qed

theorem Relationships_Included_total_witness:
  "SRecipients ex_sharing = map Some [0, 1]
   \<and> recipient (ex_heap_resolved 0) \<noteq> None \<and> recipient (ex_heap_resolved 1) \<noteq> None
   \<and> (\<exists>m objs. Relationships fst ex_DocType ex_heap_resolved ex_sharing
                   = (Inr m :: string error + RelationshipMap)
              \<and> Included ex_heap_resolved ex_sharing
                   = (Inr objs :: string error + (string \<times> string) option list))
   \<and> SRecipients ex_empty_sharing = []
   \<and> Relationships fst ex_DocType ex_heap ex_empty_sharing
       = (Inr (Map.empty(''recipients'' \<mapsto> \<lparr>Data = []\<rparr>)) :: string error + RelationshipMap)
   \<and> Included ex_heap ex_empty_sharing = (Inr [] :: string error + (string \<times> string) option list)"
proof -
  have r: "recipient (ex_heap_resolved 0) \<noteq> None \<and> recipient (ex_heap_resolved 1) \<noteq> None"
    by (simp add: ex_heap_resolved_def)
  then have a: "SRecipients ex_sharing = map Some [0, 1]
        \<and> (\<forall>a \<in> set [0, 1]. recipient (ex_heap_resolved a) \<noteq> None)"
    by (simp add: ex_sharing_def)
  have b: "SRecipients ex_empty_sharing = []"
    by (simp add: ex_empty_sharing_def)
  show ?thesis
    using a b r
      Relationships_Included_total [of ex_sharing "[0, 1]" ex_heap_resolved fst ex_DocType,
        where ?'c = string and ?'d = string]
      Relationships_Included_total [of ex_empty_sharing "[]" ex_heap fst ex_DocType,
        where ?'c = string and ?'d = string]
    by blast
qed

end
